theory Spec2Isabelle
  imports Complex_Main
begin

section \<open>Data model\<close>

text \<open>
  The development embeds \<^verbatim>\<open>src/models/msoc_all.py\<close>: the helpers \<^verbatim>\<open>Average\<close> and
  \<^verbatim>\<open>Opposite\<close>, the fusion step \<^verbatim>\<open>MSOC.loss_fn\<close> and the epoch-end hooks of the
  \<^verbatim>\<open>MSOC\<close> module.

  Conventions of the embedding.
  \<^item> A one-dimensional tensor (or numpy array) is a \<open>real list\<close>; an entry is an ideal real
    number, so rounding of the 32-bit floats is not part of the model. Integer-valued
    tensors (labels, arg-max predictions) that flow into the metric code are embedded
    into the same type.
  \<^item> A batch is a list of rows, one row per sample, so that the per-sample tensors of one
    batch are aligned by construction. Reductions by \<^verbatim>\<open>mean\<close> are meant for non-empty
    batches.
  \<^item> Every Python exception is a value \<open>Inl e\<close> of the result type \<open>error + 'a\<close>.
\<close>

datatype error =
    ZeroDivisionError  \<comment> \<open>\<^verbatim>\<open>sum(lst) / len(lst)\<close> on an empty list\<close>
  | IndexError         \<comment> \<open>class index out of range, boolean mask of the wrong length\<close>
  | RuntimeError       \<comment> \<open>\<^verbatim>\<open>torch.stack\<close> of an empty list\<close>
  | ValueError         \<comment> \<open>\<^verbatim>\<open>np.stack\<close> of an empty list\<close>
  | UndefinedEER       \<comment> \<open>the equal error rate of an empty distribution\<close>
  | MetricError        \<comment> \<open>an error raised by an external metric\<close>

definition bind_err :: "error + 'a \<Rightarrow> ('a \<Rightarrow> error + 'b) \<Rightarrow> error + 'b" where
  "bind_err m f = (case m of Inl e \<Rightarrow> Inl e | Inr x \<Rightarrow> f x)"

subsection \<open>Module-level helpers\<close>

text \<open>
  \<^verbatim>\<open>def Average(lst): return sum(lst) / len(lst)\<close>

  Python's \<^verbatim>\<open>sum\<close> folds from the left starting at 0; the division raises on an empty
  list.
\<close>

definition py_sum :: "real list \<Rightarrow> real" where
  "py_sum lst = foldl (+) 0 lst"

definition Average :: "real list \<Rightarrow> error + real" where
  "Average lst =
     (if length lst = 0 then Inl ZeroDivisionError
      else Inr (py_sum lst / real (length lst)))"

text \<open>
  \<^verbatim>\<open>def Opposite(a): a = a + 1; a[a > 1.5] = 0; return a\<close>

  \<^verbatim>\<open>a + 1\<close> allocates a new tensor, so the masked assignment never touches the
  caller's tensor and the function is pure for its caller.
\<close>

definition Opposite :: "real list \<Rightarrow> real list" where
  "Opposite a =
     (let a1 = map (\<lambda>x. x + 1) a
      in map (\<lambda>x. if x > 3 / 2 then 0 else x) a1)"

text \<open>A tensor all of whose entries are 0 or 1.\<close>

definition binary_tensor :: "real list \<Rightarrow> bool" where
  "binary_tensor t = list_all (\<lambda>x. x = 0 \<or> x = 1) t"

subsection \<open>Library operations used by the fusion step\<close>

text \<open>
  The PyTorch layers called by \<^verbatim>\<open>loss_fn\<close>, after their documentation:
  \<^verbatim>\<open>nn.Softmax(dim=1)\<close> and \<^verbatim>\<open>torch.argmax(_, dim=1)\<close> on rows of two classes,
  \<^verbatim>\<open>nn.Linear(3, 2)\<close>, \<^verbatim>\<open>CrossEntropyLoss()\<close> and \<^verbatim>\<open>BCEWithLogitsLoss()\<close> with their
  default mean reduction, and the cast \<^verbatim>\<open>.float()\<close> of a boolean tensor.
\<close>

definition float_of_bool :: "bool \<Rightarrow> real" where
  "float_of_bool b = (if b then 1 else 0)"

definition tensor_mean :: "real list \<Rightarrow> real" where
  "tensor_mean xs = sum_list xs / real (length xs)"

definition softmax :: "real \<times> real \<Rightarrow> real \<times> real" where
  "softmax l = (exp (fst l) / (exp (fst l) + exp (snd l)),
                exp (snd l) / (exp (fst l) + exp (snd l)))"

text \<open>The index of the largest entry; the first one on a tie.\<close>

definition argmax :: "real \<times> real \<Rightarrow> nat" where
  "argmax p = (if snd p > fst p then 1 else 0)"

definition class_prob :: "real \<times> real \<Rightarrow> nat \<Rightarrow> real" where
  "class_prob p y = (if y = 0 then fst p else snd p)"

text \<open>
  \<^verbatim>\<open>CrossEntropyLoss()(logits, labels)\<close>: the mean over the batch of the negative
  log-probability that the soft-max gives to the labelled class. A class index that
  is not 0 or 1 is rejected.
\<close>

definition CrossEntropyLoss :: "(real \<times> real) list \<Rightarrow> nat list \<Rightarrow> error + real" where
  "CrossEntropyLoss logits labels =
     (if list_ex (\<lambda>y. 2 \<le> y) labels then Inl IndexError
      else Inr (tensor_mean (map (\<lambda>(l, y). - ln (class_prob (softmax l) y)) (zip logits labels))))"

definition sigmoid :: "real \<Rightarrow> real" where
  "sigmoid x = 1 / (1 + exp (- x))"

text \<open>
  \<^verbatim>\<open>BCEWithLogitsLoss()(x, y)\<close>: the sigmoid is applied inside the loss, to the
  logit \<open>x\<close> it is given; the result is the mean binary cross-entropy.
\<close>

definition BCEWithLogitsLoss :: "real list \<Rightarrow> real list \<Rightarrow> real" where
  "BCEWithLogitsLoss xs ys =
     tensor_mean (map (\<lambda>(x, y). - (y * ln (sigmoid x) + (1 - y) * ln (1 - sigmoid x))) (zip xs ys))"

text \<open>Binary cross-entropy on a probability, with no sigmoid: what the step does not use.\<close>

definition BCELoss :: "real list \<Rightarrow> real list \<Rightarrow> real" where
  "BCELoss ps ys =
     tensor_mean (map (\<lambda>(p, y). - (y * ln p + (1 - y) * ln (1 - p))) (zip ps ys))"

record linear3x2 =
  weight :: "(real \<times> real \<times> real) \<times> (real \<times> real \<times> real)"
  bias :: "real \<times> real"

definition Linear :: "linear3x2 \<Rightarrow> real \<times> real \<times> real \<Rightarrow> real \<times> real" where
  "Linear W x =
     (case (weight W, bias W, x) of
        (((w00, w01, w02), (w10, w11, w12)), (b0, b1), (x0, x1, x2)) \<Rightarrow>
          (w00 * x0 + w01 * x1 + w02 * x2 + b0, w10 * x0 + w11 * x1 + w12 * x2 + b1))"

subsection \<open>The fusion step \<^verbatim>\<open>MSOC.loss_fn\<close>\<close>

text \<open>The constructor arguments that \<^verbatim>\<open>loss_fn\<close> reads.\<close>

record config =
  sync :: bool
  threshold :: bool
  audio_threshold :: real
  video_threshold :: real
  final_threshold :: real

text \<open>
  One row of a batch, after the external collaborators have run: the scores returned
  by the two one-class scorers \<^verbatim>\<open>loss_visual\<close> and \<^verbatim>\<open>loss_audio\<close>, the two logits of
  \<^verbatim>\<open>av_classifier\<close>, and the multimodal and synchrony labels. The scorers and the
  classifier are collaborators of the step; their outputs are inputs here.
\<close>

record sample =
  v_score :: real
  a_score :: real
  av_logits :: "real \<times> real"
  m_label :: nat
  s_label :: nat

text \<open>\<^verbatim>\<open>result_dict\<close>: the two entries of \<^verbatim>\<open>loss_dict\<close>, then \<^verbatim>\<open>scores\<close> and \<^verbatim>\<open>preds\<close>.\<close>

record result_dict =
  rd_loss :: real
  rd_mm_loss :: real
  rd_scores :: "real list"
  rd_preds :: "real list"

text \<open>The per-sample values of the threshold branch, named as in the source.\<close>

definition train_v_value :: "sample \<Rightarrow> real" where
  "train_v_value s = (v_score s + 1) / 2"

definition train_a_value :: "sample \<Rightarrow> real" where
  "train_a_value s = (a_score s + 1) / 2"

definition v_value :: "config \<Rightarrow> sample \<Rightarrow> real" where
  "v_value cfg s = float_of_bool (v_score s > video_threshold cfg)"

definition a_value :: "config \<Rightarrow> sample \<Rightarrow> real" where
  "a_value cfg s = float_of_bool (a_score s > audio_threshold cfg)"

definition av_value :: "sample \<Rightarrow> real" where
  "av_value s = snd (av_logits s)"

definition train_final_value :: "sample \<Rightarrow> real" where
  "train_final_value s = (train_v_value s + train_a_value s + av_value s) / 3"

definition final_value :: "config \<Rightarrow> sample \<Rightarrow> real" where
  "final_value cfg s = (v_value cfg s + a_value cfg s + av_value s) / 3"

text \<open>The per-sample input of \<^verbatim>\<open>mm_classifier\<close> in the learned branch.\<close>

definition all_scores :: "sample \<Rightarrow> real \<times> real \<times> real" where
  "all_scores s = (v_score s, a_score s, snd (av_logits s))"

text \<open>
  The fusion loss, the predictions and the scores of one branch
  (\<^verbatim>\<open>if not self.threshold: ... else: ...\<close>).
\<close>

definition fusion :: "config \<Rightarrow> linear3x2 \<Rightarrow> sample list \<Rightarrow> error + (real \<times> real list \<times> real list)" where
  "fusion cfg mm_classifier batch =
     (if \<not> threshold cfg then
        (let logits = map (\<lambda>s. Linear mm_classifier (all_scores s)) batch
         in bind_err (CrossEntropyLoss logits (map m_label batch)) (\<lambda>mm_loss.
              let scores = map softmax logits;
                  preds = map (\<lambda>p. real (argmax p)) scores
              in Inr (mm_loss, preds, map snd scores)))
      else
        (let mm_loss = BCEWithLogitsLoss (map train_final_value batch)
                                         (map (\<lambda>s. real (m_label s)) batch);
             fv = map (final_value cfg) batch;
             preds = map (\<lambda>f. float_of_bool (f > final_threshold cfg)) fv
         in Inr (mm_loss, preds, fv)))"

definition loss_fn :: "config \<Rightarrow> linear3x2 \<Rightarrow> real \<Rightarrow> real \<Rightarrow> sample list \<Rightarrow> error + result_dict" where
  "loss_fn cfg mm_classifier v_loss a_loss batch =
     bind_err (fusion cfg mm_classifier batch) (\<lambda>(mm_loss, preds, scores).
       if sync cfg then
         bind_err (CrossEntropyLoss (map av_logits batch) (map s_label batch)) (\<lambda>av_loss.
           Inr \<lparr>rd_loss = v_loss + a_loss + mm_loss + av_loss, rd_mm_loss = mm_loss,
                rd_scores = scores, rd_preds = preds\<rparr>)
       else
         Inr \<lparr>rd_loss = v_loss + a_loss + mm_loss, rd_mm_loss = mm_loss,
              rd_scores = scores, rd_preds = preds\<rparr>)"

subsection \<open>The epoch-end hooks\<close>

text \<open>What \<^verbatim>\<open>validation_step\<close> and \<^verbatim>\<open>test_step\<close> return for one batch.\<close>

record step_output =
  loss :: real
  preds :: "real list"
  targets :: "real list"
  scores :: "real list"

text \<open>
  The collaborators of the epoch-end hooks: the five \<^verbatim>\<open>torchmetrics\<close> objects of the
  module, each called on \<open>(preds, targets)\<close>, and \<^verbatim>\<open>compute_eer\<close> of \<^verbatim>\<open>eval_metrics\<close>,
  called on \<open>(fake scores, real scores)\<close> and read at index 0. Any of them may raise.
\<close>

record externals =
  acc :: "real list \<Rightarrow> real list \<Rightarrow> error + real"
  auroc :: "real list \<Rightarrow> real list \<Rightarrow> error + real"
  f1score :: "real list \<Rightarrow> real list \<Rightarrow> error + real"
  recall :: "real list \<Rightarrow> real list \<Rightarrow> error + real"
  precisions :: "real list \<Rightarrow> real list \<Rightarrow> error + real"
  compute_eer :: "real list \<Rightarrow> real list \<Rightarrow> error + real"

text \<open>The mutable fields of the module, and what it has logged so far.\<close>

record module_state =
  best_loss :: real
  best_acc :: real
  best_auroc :: real
  best_real_f1score :: real
  best_real_recall :: real
  best_real_precision :: real
  best_fake_f1score :: real
  best_fake_recall :: real
  best_fake_precision :: real
  logged :: "(string \<times> real) list"

text \<open>The fields as \<^verbatim>\<open>__init__\<close> sets them.\<close>

definition init_state :: module_state where
  "init_state =
     \<lparr>best_loss = 1000000000, best_acc = 0, best_auroc = 0,
      best_real_f1score = 0, best_real_recall = 0, best_real_precision = 0,
      best_fake_f1score = 0, best_fake_recall = 0, best_fake_precision = 0,
      logged = []\<rparr>"

definition self_log :: "string \<Rightarrow> real \<Rightarrow> module_state \<Rightarrow> module_state" where
  "self_log name v st = st\<lparr>logged := logged st @ [(name, v)]\<rparr>"

text \<open>\<^verbatim>\<open>torch.stack\<close> and \<^verbatim>\<open>np.stack\<close> of a list of scalars: both refuse an empty list.\<close>

definition torch_stack :: "real list \<Rightarrow> error + real list" where
  "torch_stack xs = (if xs = [] then Inl RuntimeError else Inr xs)"

definition np_stack :: "real list \<Rightarrow> error + real list" where
  "np_stack xs = (if xs = [] then Inl ValueError else Inr xs)"

text \<open>\<^verbatim>\<open>a[mask]\<close> for a boolean mask: the mask must be as long as the array.\<close>

definition bool_index :: "real list \<Rightarrow> bool list \<Rightarrow> error + real list" where
  "bool_index a msk =
     (if length msk \<noteq> length a then Inl IndexError
      else Inr (map fst (filter snd (zip a msk))))"

text \<open>
  The first lines of \<^verbatim>\<open>validation_epoch_end\<close> and of \<^verbatim>\<open>test_epoch_end\<close> are the same
  up to the names of the local variables: the average loss, the flattened and stacked
  predictions, targets and scores, and the equal error rate of the split scores.
  The result is \<open>(loss, preds, targets, eer)\<close>.
\<close>

definition epoch_gather :: "externals \<Rightarrow> step_output list \<Rightarrow> error + (real \<times> real list \<times> real list \<times> real)" where
  "epoch_gather ext outs =
     bind_err (Average (map loss outs)) (\<lambda>epoch_loss.
     bind_err (torch_stack (concat (map preds outs))) (\<lambda>ps.
     bind_err (torch_stack (concat (map targets outs))) (\<lambda>ts.
     bind_err (np_stack (concat (map scores outs))) (\<lambda>sc.
     bind_err (bool_index sc (map (\<lambda>t. t = 1) ts)) (\<lambda>fake.
     bind_err (bool_index sc (map (\<lambda>t. t = 0) ts)) (\<lambda>genuine.
     bind_err (compute_eer ext fake genuine) (\<lambda>eer.
       Inr (epoch_loss, ps, ts, eer))))))))"

definition validation_epoch_end :: "externals \<Rightarrow> module_state \<Rightarrow> step_output list \<Rightarrow> error + module_state" where
  "validation_epoch_end ext st outs =
     bind_err (epoch_gather ext outs) (\<lambda>(valid_loss, ps, ts, val_eer).
     bind_err (acc ext ps ts) (\<lambda>new_acc.
     bind_err (auroc ext ps ts) (\<lambda>new_auroc.
     bind_err (f1score ext ps ts) (\<lambda>real_f1.
     bind_err (recall ext ps ts) (\<lambda>real_rec.
     bind_err (precisions ext ps ts) (\<lambda>real_prec.
     bind_err (f1score ext (Opposite ps) (Opposite ts)) (\<lambda>fake_f1.
     bind_err (recall ext (Opposite ps) (Opposite ts)) (\<lambda>fake_rec.
     bind_err (precisions ext (Opposite ps) (Opposite ts)) (\<lambda>fake_prec.
       Inr ((self_log ''val_eer'' val_eer st)
              \<lparr>best_acc := new_acc, best_auroc := new_auroc,
               best_real_f1score := real_f1, best_real_recall := real_rec,
               best_real_precision := real_prec,
               best_fake_f1score := fake_f1, best_fake_recall := fake_rec,
               best_fake_precision := fake_prec,
               best_loss := valid_loss\<rparr>))))))))))"

text \<open>The dictionary returned by \<^verbatim>\<open>test_epoch_end\<close>.\<close>

record test_result =
  test_loss :: real
  test_acc :: real
  test_auroc :: real
  test_real_f1score :: real
  test_real_recall :: real
  test_real_precision :: real
  test_fake_f1score :: real
  test_fake_recall :: real
  test_fake_precision :: real

definition test_epoch_end :: "externals \<Rightarrow> module_state \<Rightarrow> step_output list \<Rightarrow> error + (test_result \<times> module_state)" where
  "test_epoch_end ext st outs =
     bind_err (epoch_gather ext outs) (\<lambda>(loss_avg, ps, ts, test_eer).
     bind_err (acc ext ps ts) (\<lambda>t_acc.
     bind_err (auroc ext ps ts) (\<lambda>t_auroc.
     bind_err (f1score ext ps ts) (\<lambda>real_f1.
     bind_err (recall ext ps ts) (\<lambda>real_rec.
     bind_err (precisions ext ps ts) (\<lambda>real_prec.
     bind_err (f1score ext (Opposite ps) (Opposite ts)) (\<lambda>fake_f1.
     bind_err (recall ext (Opposite ps) (Opposite ts)) (\<lambda>fake_rec.
     bind_err (precisions ext (Opposite ps) (Opposite ts)) (\<lambda>fake_prec.
       Inr (\<lparr>test_loss = loss_avg, test_acc = t_acc, test_auroc = t_auroc,
             test_real_f1score = real_f1, test_real_recall = real_rec,
             test_real_precision = real_prec,
             test_fake_f1score = fake_f1, test_fake_recall = fake_rec,
             test_fake_precision = fake_prec\<rparr>,
            foldl (\<lambda>s (name, v). self_log name v s) st
              [(''test_eer'', test_eer), (''test_acc'', t_acc), (''test_auroc'', t_auroc),
               (''test_real_f1score'', real_f1), (''test_real_recall'', real_rec),
               (''test_real_precision'', real_prec),
               (''test_fake_f1score'', fake_f1), (''test_fake_recall'', fake_rec),
               (''test_fake_precision'', fake_prec)]))))))))))"

text \<open>
  Modelled from the spec: \<^verbatim>\<open>compute_eer\<close> of \<^verbatim>\<open>eval_metrics\<close> is imported by the module
  from another file of the repository. The specification says of it: the
  equal error rate "requires both distributions to be non-empty; if either is empty,
  EER is undefined and must be reported as such rather than silently defaulting to 0
  or 1". The threshold sweep over two non-empty distributions is left as the
  parameter \<open>sweep\<close>.
\<close>

definition spec_compute_eer :: "(real list \<Rightarrow> real list \<Rightarrow> real) \<Rightarrow> real list \<Rightarrow> real list \<Rightarrow> error + real" where
  "spec_compute_eer sweep fake genuine =
     (if fake = [] \<or> genuine = [] then Inl UndefinedEER
      else Inr (sweep fake genuine))"

text \<open>
  The size-weighted mean of the batch losses, the size of a batch being the number of
  its predictions: the quantity the specification asks for when batch sizes vary.
\<close>

definition size_weighted_mean :: "step_output list \<Rightarrow> real" where
  "size_weighted_mean outs =
     sum_list (map (\<lambda>out. real (length (preds out)) * loss out) outs)
       / real (sum_list (map (\<lambda>out. length (preds out)) outs))"

subsection \<open>The specification's reading of the votes\<close>

text \<open>
  The specification words the threshold branch differently from the source: "each
  remapped value is binarized against a modality-specific threshold". The next three
  definitions follow that wording, to be compared with \<open>v_value\<close>, \<open>a_value\<close> and the
  prediction of \<open>loss_fn\<close>.
\<close>

definition spec_v_value :: "config \<Rightarrow> sample \<Rightarrow> real" where
  "spec_v_value cfg s = float_of_bool (train_v_value s > video_threshold cfg)"

definition spec_a_value :: "config \<Rightarrow> sample \<Rightarrow> real" where
  "spec_a_value cfg s = float_of_bool (train_a_value s > audio_threshold cfg)"

definition spec_pred :: "config \<Rightarrow> sample \<Rightarrow> real" where
  "spec_pred cfg s =
     float_of_bool ((spec_v_value cfg s + spec_a_value cfg s + av_value s) / 3 > final_threshold cfg)"

subsection \<open>Concrete inputs\<close>

text \<open>Threshold mode with the default thresholds, no synchrony loss.\<close>

definition cfg_half :: config where
  "cfg_half = \<lparr>sync = False, threshold = True, audio_threshold = 1 / 2,
                video_threshold = 1 / 2, final_threshold = 1 / 2\<rparr>"

text \<open>Learned fusion with the synchrony loss.\<close>

definition cfg_learned_sync :: config where
  "cfg_learned_sync = \<lparr>sync = True, threshold = False, audio_threshold = 1 / 2,
                video_threshold = 1 / 2, final_threshold = 1 / 2\<rparr>"

text \<open>The boundary scenario: audio score 0.9, visual score 0.1, multimodal logit 0.5.\<close>

definition boundary_sample :: sample where
  "boundary_sample =
     \<lparr>v_score = 1 / 10, a_score = 9 / 10, av_logits = (0, 1 / 2), m_label = 1, s_label = 0\<rparr>"

text \<open>Two scores below the thresholds whose remapped values are above them.\<close>

definition low_sample :: sample where
  "low_sample = \<lparr>v_score = 1 / 5, a_score = 1 / 5, av_logits = (0, 3 / 5), m_label = 1, s_label = 0\<rparr>"

definition zero_sample :: sample where
  "zero_sample = \<lparr>v_score = 0, a_score = 0, av_logits = (0, 0), m_label = 1, s_label = 0\<rparr>"

definition zero_linear :: linear3x2 where
  "zero_linear = \<lparr>weight = ((0, 0, 0), (0, 0, 0)), bias = (0, 0)\<rparr>"

definition bias_linear :: linear3x2 where
  "bias_linear = \<lparr>weight = ((0, 0, 0), (0, 0, 0)), bias = (0, ln 3)\<rparr>"

text \<open>
  Simple stand-ins for the collaborators of the epoch-end hooks: a sweep that returns
  0 on separated distributions and \<open>1/2\<close> otherwise, the accuracy, and sums that tell
  the two polarities apart.
\<close>

definition stub_sweep :: "real list \<Rightarrow> real list \<Rightarrow> real" where
  "stub_sweep fake genuine =
     (if list_all (\<lambda>x. list_all (\<lambda>y. y < x) genuine) fake then 0 else 1 / 2)"

definition stub_ext :: externals where
  "stub_ext =
     \<lparr>acc = (\<lambda>p t. Inr (real (length (filter (\<lambda>(x, y). x = y) (zip p t))) / real (length p))),
      auroc = (\<lambda>p t. Inr 1),
      f1score = (\<lambda>p t. Inr (sum_list p)),
      recall = (\<lambda>p t. Inr (sum_list t)),
      precisions = (\<lambda>p t. Inr (sum_list p + sum_list t)),
      compute_eer = spec_compute_eer stub_sweep\<rparr>"

text \<open>An epoch of two batches of sizes 1 and 3, one of two batches of size 2, and one
  with genuine samples only.\<close>

definition mixed_epoch :: "step_output list" where
  "mixed_epoch =
     [\<lparr>loss = 1, preds = [1], targets = [1], scores = [9 / 10]\<rparr>,
      \<lparr>loss = 0, preds = [0, 1, 0], targets = [0, 0, 0], scores = [1 / 5, 7 / 10, 1 / 10]\<rparr>]"

definition even_epoch :: "step_output list" where
  "even_epoch =
     [\<lparr>loss = 1, preds = [1, 0], targets = [1, 0], scores = [9 / 10, 1 / 5]\<rparr>,
      \<lparr>loss = 0, preds = [0, 1], targets = [0, 0], scores = [1 / 10, 7 / 10]\<rparr>]"

definition genuine_epoch :: "step_output list" where
  "genuine_epoch = [\<lparr>loss = 1, preds = [0, 0], targets = [0, 0], scores = [1 / 5, 1 / 10]\<rparr>]"

section \<open>Properties\<close>

subsection \<open>Error propagation\<close>

lemma bind_err_Inr_iff:
  "bind_err m f = Inr y \<longleftrightarrow> (\<exists>x. m = Inr x \<and> f x = Inr y)"
  by (cases m) (simp_all add: bind_err_def)

lemma bind_err_Inl [simp]: "bind_err (Inl e) f = Inl e"
  by (simp add: bind_err_def)

lemma bind_err_Inr [simp]: "bind_err (Inr x) f = f x"
  by (simp add: bind_err_def)

subsection \<open>The complement transform\<close>

text \<open>
  C3. On a tensor whose entries are all 0 or 1, \<^verbatim>\<open>Opposite\<close> is the elementwise
  complement \<open>1 - t\<close>; its result is again such a tensor, and applying it twice gives
  the tensor back.
\<close>

theorem Opposite_binary_complement:
  assumes "binary_tensor t"
  shows "Opposite t = map (\<lambda>x. 1 - x) t \<and> binary_tensor (Opposite t) \<and> Opposite (Opposite t) = t"
  using assms
  by (induction t) (auto simp: Opposite_def binary_tensor_def)

theorem Opposite_binary_complement_witness:
  "binary_tensor [0, 1, 1, 0]
   \<and> Opposite [0, 1, 1, 0] = map (\<lambda>x. 1 - x) [0, 1, 1, 0]
   \<and> binary_tensor (Opposite [0, 1, 1, 0])
   \<and> Opposite (Opposite [0, 1, 1, 0]) = [0, 1, 1, 0]"
proof -
  have b: "binary_tensor [0, 1, 1, 0]"
    by (simp add: binary_tensor_def)
  from Opposite_binary_complement [OF b] b show ?thesis
    by blast
qed

text \<open>
  C10. \<^verbatim>\<open>Opposite\<close> checks nothing: it is a total function of the entries, which
  zeroes an entry above \<open>1/2\<close> and adds 1 to any other. The entry \<open>1/2\<close> becomes
  \<open>3/2\<close>, since \<open>1/2 + 1\<close> is not strictly above the cutoff \<open>3/2\<close>; the result is
  not a binary tensor and no error is raised.
\<close>

theorem Opposite_no_validation:
  "Opposite t = map (\<lambda>x. if x > 1 / 2 then 0 else x + 1) t
   \<and> Opposite [1 / 2] = [3 / 2] \<and> \<not> binary_tensor (Opposite [1 / 2])"
  by (simp add: Opposite_def binary_tensor_def)

subsection \<open>The fusion step\<close>

lemmas threshold_defs = final_value_def v_value_def a_value_def av_value_def
  train_final_value_def train_v_value_def train_a_value_def float_of_bool_def

lemma train_final_value_eq:
  "train_final_value = (\<lambda>s. ((v_score s + 1) / 2 + (a_score s + 1) / 2 + snd (av_logits s)) / 3)"
  by (rule ext) (simp add: train_final_value_def train_v_value_def train_a_value_def av_value_def)

lemma final_value_eq:
  "final_value cfg
     = (\<lambda>s. (float_of_bool (v_score s > video_threshold cfg)
             + float_of_bool (a_score s > audio_threshold cfg) + snd (av_logits s)) / 3)"
  by (rule ext) (simp add: final_value_def v_value_def a_value_def av_value_def)

lemma fusion_threshold:
  assumes "threshold cfg"
  shows "fusion cfg W batch =
     Inr (BCEWithLogitsLoss (map train_final_value batch) (map (\<lambda>s. real (m_label s)) batch),
          map (\<lambda>s. float_of_bool (final_value cfg s > final_threshold cfg)) batch,
          map (final_value cfg) batch)"
  using assms by (simp add: fusion_def Let_def o_def)

lemma fusion_learned:
  assumes "\<not> threshold cfg"
  shows "fusion cfg W batch =
     bind_err (CrossEntropyLoss (map (\<lambda>s. Linear W (all_scores s)) batch) (map m_label batch))
       (\<lambda>mm_loss. Inr (mm_loss,
          map (\<lambda>s. real (argmax (softmax (Linear W (all_scores s))))) batch,
          map (\<lambda>s. snd (softmax (Linear W (all_scores s)))) batch))"
  using assms by (simp add: fusion_def Let_def o_def)

text \<open>What a normal return of \<^verbatim>\<open>loss_fn\<close> tells about its parts.\<close>

lemma loss_fn_InrD:
  assumes "loss_fn cfg W vl al batch = Inr r"
  shows "\<exists>av. fusion cfg W batch = Inr (rd_mm_loss r, rd_preds r, rd_scores r)
     \<and> (if sync cfg then CrossEntropyLoss (map av_logits batch) (map s_label batch) = Inr av
         else av = 0)
     \<and> rd_loss r = vl + al + rd_mm_loss r + av"
  using assms
  by (auto simp: loss_fn_def bind_err_Inr_iff split: if_splits)

text \<open>
  The step returns whenever the class indices it hands to the cross-entropy are 0 or 1:
  the multimodal labels in the learned branch, the synchrony labels when the synchrony
  loss is on.
\<close>

lemma CrossEntropyLoss_returns:
  assumes "list_all (\<lambda>y. y < 2) labels"
  shows "\<exists>c. CrossEntropyLoss logits labels = Inr c"
proof -
  from assms have "\<not> list_ex (\<lambda>y. 2 \<le> y) labels"
    by (induction labels) auto
  then show ?thesis
    by (simp add: CrossEntropyLoss_def)
qed

lemma loss_fn_returns:
  assumes "threshold cfg \<or> list_all (\<lambda>s. m_label s < 2) batch"
    and "\<not> sync cfg \<or> list_all (\<lambda>s. s_label s < 2) batch"
  shows "\<exists>r. loss_fn cfg W vl al batch = Inr r"
proof -
  have f: "\<exists>x. fusion cfg W batch = Inr x"
  proof (cases "threshold cfg")
    case True
    then show ?thesis
      by (simp add: fusion_threshold)
  next
    case False
    with assms(1) have "list_all (\<lambda>y. y < 2) (map m_label batch)"
      by (simp add: list_all_iff)
    from CrossEntropyLoss_returns [OF this] show ?thesis
      by (auto simp: fusion_learned [OF False] bind_err_Inr_iff)
  qed
  then obtain mm p sc where x: "fusion cfg W batch = Inr (mm, p, sc)"
    by (metis prod_cases3)
  show ?thesis
  proof (cases "sync cfg")
    case True
    with assms(2) have "list_all (\<lambda>y. y < 2) (map s_label batch)"
      by (simp add: list_all_iff)
    from CrossEntropyLoss_returns [OF this] obtain c where
      "CrossEntropyLoss (map av_logits batch) (map s_label batch) = Inr c"
      by blast
    with True x show ?thesis
      by (simp add: loss_fn_def)
  next
    case False
    with x show ?thesis
      by (simp add: loss_fn_def)
  qed
qed

lemma softmax_sum: "fst (softmax l) + snd (softmax l) = 1"
proof -
  have "exp (fst l) + exp (snd l) > 0"
    by (simp add: add_pos_pos)
  then show ?thesis
    by (simp add: softmax_def add_divide_distrib [symmetric])
qed

lemma softmax_snd_bounds: "0 < snd (softmax l) \<and> snd (softmax l) < 1"
proof -
  have "exp (fst l) + exp (snd l) > 0"
    by (simp add: add_pos_pos)
  then show ?thesis
    by (simp add: softmax_def)
qed

lemma argmax_softmax: "argmax (softmax l) = (if snd l > fst l then 1 else 0)"
proof -
  have "exp (fst l) + exp (snd l) > 0"
    by (simp add: add_pos_pos)
  then show ?thesis
    by (simp add: softmax_def argmax_def divide_less_cancel)
qed

lemma bce_with_logits_is_bce_of_sigmoid:
  "BCEWithLogitsLoss xs ys = BCELoss (map sigmoid xs) ys"
  by (simp add: BCEWithLogitsLoss_def BCELoss_def zip_map1 o_def split_def)

lemma s_label_irrelevant:
  "train_final_value (s\<lparr>s_label := x\<rparr>) = train_final_value s"
  "final_value cfg (s\<lparr>s_label := x\<rparr>) = final_value cfg s"
  "all_scores (s\<lparr>s_label := x\<rparr>) = all_scores s"
  by (simp_all add: all_scores_def final_value_def v_value_def a_value_def av_value_def
      train_final_value_def train_v_value_def train_a_value_def)

lemma fusion_ignores_s_label:
  "fusion cfg W (map (\<lambda>s. s\<lparr>s_label := l s\<rparr>) batch) = fusion cfg W batch"
  by (simp add: fusion_def o_def s_label_irrelevant)

lemma ce_zero: "CrossEntropyLoss [(0, 0)] [y] = (if 2 \<le> y then Inl IndexError else Inr (ln 2))"
  by (simp add: CrossEntropyLoss_def tensor_mean_def softmax_def class_prob_def ln_div)

lemma softmax_0_ln3: "softmax (0, ln 3) = (1 / 4, 3 / 4)"
  by (simp add: softmax_def)

lemma loss_fn_low_sample:
  "loss_fn cfg_half zero_linear vl al [low_sample]
     = Inr \<lparr>rd_loss = vl + al + BCEWithLogitsLoss [3 / 5] [1],
            rd_mm_loss = BCEWithLogitsLoss [3 / 5] [1], rd_scores = [1 / 5], rd_preds = [0]\<rparr>"
  by (simp add: loss_fn_def fusion_def cfg_half_def low_sample_def Let_def threshold_defs)

text \<open>
  C1, as the code has it. In threshold mode each unimodal score is remapped to
  \<open>(score + 1) / 2\<close>, which lies in \<open>[0, 1]\<close> when the score lies in \<open>[-1, 1]\<close>, and the
  remapped values are what the training fusion loss averages. The vote of a modality
  is the raw score of the scorer, not its remapped value, compared strictly with the
  threshold of the modality. The prediction and the returned score are computed from
  these votes: the score is the average of the two votes and the multimodal logit, and
  the prediction compares that average with the final threshold.
\<close>

theorem threshold_votes_from_raw_scores:
  assumes "threshold cfg" and "loss_fn cfg W vl al batch = Inr r" and "batch \<noteq> []"
  shows "rd_preds r =
      map (\<lambda>s. float_of_bool
            ((float_of_bool (v_score s > video_threshold cfg)
              + float_of_bool (a_score s > audio_threshold cfg)
              + snd (av_logits s)) / 3 > final_threshold cfg)) batch
    \<and> rd_scores r =
      map (\<lambda>s. (float_of_bool (v_score s > video_threshold cfg)
              + float_of_bool (a_score s > audio_threshold cfg)
              + snd (av_logits s)) / 3) batch
    \<and> rd_mm_loss r =
      BCEWithLogitsLoss
        (map (\<lambda>s. ((v_score s + 1) / 2 + (a_score s + 1) / 2 + snd (av_logits s)) / 3) batch)
        (map (\<lambda>s. real (m_label s)) batch)
    \<and> (\<forall>s. v_value cfg s = float_of_bool (v_score s > video_threshold cfg)
           \<and> a_value cfg s = float_of_bool (a_score s > audio_threshold cfg)
           \<and> train_v_value s = (v_score s + 1) / 2
           \<and> train_a_value s = (a_score s + 1) / 2)
    \<and> (\<forall>s. - 1 \<le> v_score s \<and> v_score s \<le> 1 \<longrightarrow> 0 \<le> train_v_value s \<and> train_v_value s \<le> 1)
    \<and> (\<forall>s. - 1 \<le> a_score s \<and> a_score s \<le> 1 \<longrightarrow> 0 \<le> train_a_value s \<and> train_a_value s \<le> 1)"
proof -
  from loss_fn_InrD [OF assms(2)] fusion_threshold [OF assms(1)]
  have "rd_preds r = map (\<lambda>s. float_of_bool (final_value cfg s > final_threshold cfg)) batch"
    and "rd_scores r = map (final_value cfg) batch"
    and "rd_mm_loss r
      = BCEWithLogitsLoss (map train_final_value batch) (map (\<lambda>s. real (m_label s)) batch)"
    by auto
  then show ?thesis
    by (simp add: train_final_value_eq final_value_eq train_v_value_def train_a_value_def
        v_value_def a_value_def)
qed

theorem threshold_votes_from_raw_scores_witness:
  "threshold cfg_half
   \<and> loss_fn cfg_half zero_linear 0 0 [low_sample]
      = Inr \<lparr>rd_loss = 0 + 0 + BCEWithLogitsLoss [3 / 5] [1],
             rd_mm_loss = BCEWithLogitsLoss [3 / 5] [1],
             rd_scores = [1 / 5], rd_preds = [0]\<rparr>
   \<and> [low_sample] \<noteq> []
   \<and> - 1 \<le> v_score low_sample \<and> v_score low_sample \<le> 1
   \<and> - 1 \<le> a_score low_sample \<and> a_score low_sample \<le> 1
   \<and> train_v_value low_sample = 3 / 5 \<and> train_a_value low_sample = 3 / 5"
proof -
  have t: "threshold cfg_half"
    by (simp add: cfg_half_def)
  have ne: "[low_sample] \<noteq> []"
    by simp
  note l = loss_fn_low_sample [of 0 0]
  from threshold_votes_from_raw_scores [OF t l ne] t l show ?thesis
    by (simp add: low_sample_def train_v_value_def train_a_value_def)
qed

text \<open>
  The wording "the remapped value is binarized" fails on the code: for two scores
  of \<open>1/5\<close> and thresholds of \<open>1/2\<close> the votes of the code are 0 and the prediction is
  0, whereas the remapped values \<open>3/5\<close> are above the thresholds and would give votes
  of 1 and the prediction 1.
\<close>

theorem remapped_vote_counterexample:
  "v_value cfg_half low_sample \<noteq> spec_v_value cfg_half low_sample
   \<and> a_value cfg_half low_sample \<noteq> spec_a_value cfg_half low_sample
   \<and> map_sum id rd_preds (loss_fn cfg_half zero_linear 0 0 [low_sample]) = Inr [0]
   \<and> spec_pred cfg_half low_sample = 1"
  by (simp add: loss_fn_low_sample)
    (simp add: cfg_half_def low_sample_def threshold_defs
      spec_v_value_def spec_a_value_def spec_pred_def)

text \<open>
  C4. In threshold mode the prediction of a sample is 1 exactly when the average of
  its three votes is strictly above \<open>final_threshold\<close>, and 0 otherwise. With an audio
  vote of 1, a visual vote of 0, a multimodal vote of \<open>1/2\<close> and a final threshold of
  \<open>1/2\<close>, the average is exactly \<open>1/2\<close> and the prediction is 0.
\<close>

theorem threshold_pred_strict:
  assumes "threshold cfg" and "loss_fn cfg W vl al batch = Inr r" and "i < length batch"
  shows "length (rd_preds r) = length batch
    \<and> final_value cfg (batch ! i)
        = (v_value cfg (batch ! i) + a_value cfg (batch ! i) + av_value (batch ! i)) / 3
    \<and> (rd_preds r ! i = 1 \<longleftrightarrow> final_value cfg (batch ! i) > final_threshold cfg)
    \<and> (rd_preds r ! i = 0 \<longleftrightarrow> final_value cfg (batch ! i) \<le> final_threshold cfg)
    \<and> (a_value cfg (batch ! i) = 1 \<and> v_value cfg (batch ! i) = 0
         \<and> av_value (batch ! i) = 1 / 2 \<and> final_threshold cfg = 1 / 2
        \<longrightarrow> final_value cfg (batch ! i) = 1 / 2 \<and> rd_preds r ! i = 0)"
proof -
  from loss_fn_InrD [OF assms(2)] fusion_threshold [OF assms(1)]
  have p: "rd_preds r = map (\<lambda>s. float_of_bool (final_value cfg s > final_threshold cfg)) batch"
    by auto
  show ?thesis
    using assms(3) by (simp add: p float_of_bool_def final_value_def)
qed

theorem threshold_pred_strict_witness:
  "threshold cfg_half
   \<and> loss_fn cfg_half zero_linear 0 0 [boundary_sample]
      = Inr \<lparr>rd_loss = BCEWithLogitsLoss [2 / 3] [1], rd_mm_loss = BCEWithLogitsLoss [2 / 3] [1],
             rd_scores = [1 / 2], rd_preds = [0]\<rparr>
   \<and> (0::nat) < length [boundary_sample]
   \<and> a_value cfg_half boundary_sample = 1
   \<and> v_value cfg_half boundary_sample = 0
   \<and> av_value boundary_sample = 1 / 2
   \<and> final_threshold cfg_half = 1 / 2
   \<and> final_value cfg_half boundary_sample = 1 / 2
   \<and> \<not> final_value cfg_half boundary_sample > final_threshold cfg_half"
proof -
  let ?r = "\<lparr>rd_loss = BCEWithLogitsLoss [2 / 3] [1], rd_mm_loss = BCEWithLogitsLoss [2 / 3] [1],
             rd_scores = [1 / 2], rd_preds = [0]\<rparr>"
  have t: "threshold cfg_half" and ft: "final_threshold cfg_half = 1 / 2"
    by (simp_all add: cfg_half_def)
  have l: "loss_fn cfg_half zero_linear 0 0 [boundary_sample] = Inr ?r"
    by (simp add: loss_fn_def fusion_def cfg_half_def boundary_sample_def Let_def threshold_defs)
  have v: "a_value cfg_half boundary_sample = 1" "v_value cfg_half boundary_sample = 0"
    "av_value boundary_sample = 1 / 2"
    by (simp_all add: cfg_half_def boundary_sample_def a_value_def v_value_def av_value_def
        float_of_bool_def)
  from threshold_pred_strict [OF t l, of 0] v t ft l show ?thesis
    by simp
qed

text \<open>
  C5. In both modes, for every non-empty batch on which the step returns, the total
  loss is the audio loss plus the visual loss plus the fusion loss of the mode. When
  the synchrony flag is on, the cross-entropy of the multimodal logits against the
  synchrony labels is added to it. When the flag is off there is no such term at all:
  the whole result is the same whatever the synchrony labels are.
\<close>

theorem total_loss_components:
  assumes "loss_fn cfg W v_loss a_loss batch = Inr r" and "batch \<noteq> []"
  shows "(\<exists>p sc. fusion cfg W batch = Inr (rd_mm_loss r, p, sc))
    \<and> (sync cfg \<longrightarrow>
         (\<exists>av_loss. CrossEntropyLoss (map av_logits batch) (map s_label batch) = Inr av_loss
            \<and> rd_loss r = a_loss + v_loss + rd_mm_loss r + av_loss))
    \<and> (\<not> sync cfg \<longrightarrow>
         rd_loss r = a_loss + v_loss + rd_mm_loss r
         \<and> loss_fn cfg W v_loss a_loss (map (\<lambda>s. s\<lparr>s_label := l s\<rparr>) batch) = Inr r)"
proof -
  from loss_fn_InrD [OF assms(1)] obtain av where
    f: "fusion cfg W batch = Inr (rd_mm_loss r, rd_preds r, rd_scores r)" and
    a: "if sync cfg then CrossEntropyLoss (map av_logits batch) (map s_label batch) = Inr av
        else av = 0" and
    t: "rd_loss r = v_loss + a_loss + rd_mm_loss r + av"
    by blast
  have 1: "\<exists>p sc. fusion cfg W batch = Inr (rd_mm_loss r, p, sc)"
    using f by blast
  have 2: "\<exists>av_loss. CrossEntropyLoss (map av_logits batch) (map s_label batch) = Inr av_loss
            \<and> rd_loss r = a_loss + v_loss + rd_mm_loss r + av_loss" if "sync cfg"
    using that a t by auto
  have 3: "rd_loss r = a_loss + v_loss + rd_mm_loss r" if "\<not> sync cfg"
    using that a t by auto
  have 4: "loss_fn cfg W v_loss a_loss (map (\<lambda>s. s\<lparr>s_label := l s\<rparr>) batch) = Inr r"
    if "\<not> sync cfg"
    using that assms(1) by (simp add: loss_fn_def fusion_ignores_s_label)
  from 1 2 3 4 show ?thesis
    by blast
qed

theorem total_loss_components_witness:
  "loss_fn cfg_learned_sync zero_linear 1 2 [zero_sample]
     = Inr \<lparr>rd_loss = 1 + 2 + ln 2 + ln 2, rd_mm_loss = ln 2, rd_scores = [1 / 2], rd_preds = [0]\<rparr>
   \<and> [zero_sample] \<noteq> []
   \<and> sync cfg_learned_sync
   \<and> CrossEntropyLoss (map av_logits [zero_sample]) (map s_label [zero_sample]) = Inr (ln 2)
   \<and> loss_fn cfg_half zero_linear 1 2 [low_sample]
     = Inr \<lparr>rd_loss = 1 + 2 + BCEWithLogitsLoss [3 / 5] [1],
            rd_mm_loss = BCEWithLogitsLoss [3 / 5] [1], rd_scores = [1 / 5], rd_preds = [0]\<rparr>
   \<and> [low_sample] \<noteq> []
   \<and> \<not> sync cfg_half
   \<and> loss_fn cfg_half zero_linear 1 2 (map (\<lambda>s. s\<lparr>s_label := 7\<rparr>) [low_sample])
     = Inr \<lparr>rd_loss = 1 + 2 + BCEWithLogitsLoss [3 / 5] [1],
            rd_mm_loss = BCEWithLogitsLoss [3 / 5] [1], rd_scores = [1 / 5], rd_preds = [0]\<rparr>"
proof -
  let ?r1 = "\<lparr>rd_loss = 1 + 2 + ln 2 + ln 2, rd_mm_loss = ln 2, rd_scores = [1 / 2], rd_preds = [0]\<rparr>"
  have l1: "loss_fn cfg_learned_sync zero_linear 1 2 [zero_sample] = Inr ?r1"
    by (simp add: loss_fn_def fusion_def cfg_learned_sync_def zero_linear_def zero_sample_def
        Linear_def all_scores_def ce_zero softmax_def argmax_def)
  note l2 = loss_fn_low_sample [of 1 2]
  have s: "sync cfg_learned_sync" "\<not> sync cfg_half"
    by (simp_all add: cfg_learned_sync_def cfg_half_def)
  have ne: "[zero_sample] \<noteq> []" "[low_sample] \<noteq> []"
    by simp_all
  from total_loss_components [OF l1 ne(1)] total_loss_components [OF l2 ne(2), of "\<lambda>s. 7"] s l1 l2
  show ?thesis
    by (simp add: zero_sample_def ce_zero)
qed

text \<open>
  C6. In learned-classifier mode the score of a sample is the soft-max probability of
  class 1, the fake class, of the two logits of \<^verbatim>\<open>mm_classifier\<close>; it lies in \<open>[0, 1]\<close>,
  the two soft-max outputs sum to 1, and the prediction is the arg-max of the
  soft-max: 0 or 1, and 1 exactly when the score is above \<open>1/2\<close>.
\<close>

theorem learned_fusion_softmax:
  assumes "\<not> threshold cfg" and "loss_fn cfg W vl al batch = Inr r" and "i < length batch"
  shows "length (rd_scores r) = length batch \<and> length (rd_preds r) = length batch
    \<and> rd_scores r ! i = snd (softmax (Linear W (all_scores (batch ! i))))
    \<and> 0 \<le> rd_scores r ! i \<and> rd_scores r ! i \<le> 1
    \<and> fst (softmax (Linear W (all_scores (batch ! i))))
        + snd (softmax (Linear W (all_scores (batch ! i)))) = 1
    \<and> rd_preds r ! i = real (argmax (softmax (Linear W (all_scores (batch ! i)))))
    \<and> (rd_preds r ! i = 0 \<or> rd_preds r ! i = 1)
    \<and> (rd_preds r ! i = 1 \<longleftrightarrow> rd_scores r ! i > 1 / 2)"
proof -
  let ?p = "softmax (Linear W (all_scores (batch ! i)))"
  from loss_fn_InrD [OF assms(2)] fusion_learned [OF assms(1), of W batch]
  have "rd_preds r = map (\<lambda>s. real (argmax (softmax (Linear W (all_scores s))))) batch"
    and "rd_scores r = map (\<lambda>s. snd (softmax (Linear W (all_scores s)))) batch"
    by (auto simp: bind_err_Inr_iff)
  then have p: "rd_preds r ! i = real (argmax ?p)" and sc: "rd_scores r ! i = snd ?p"
    and len: "length (rd_scores r) = length batch" "length (rd_preds r) = length batch"
    using assms(3) by simp_all
  have b: "0 < snd ?p" "snd ?p < 1"
    using softmax_snd_bounds [of "Linear W (all_scores (batch ! i))"] by simp_all
  have sm: "fst ?p + snd ?p = 1"
    by (rule softmax_sum)
  have am: "argmax ?p = 0 \<or> argmax ?p = 1"
    by (simp add: argmax_def)
  have half: "argmax ?p = 1 \<longleftrightarrow> snd ?p > 1 / 2"
    using sm by (auto simp: argmax_def)
  from p sc len b sm am half show ?thesis
    by auto
qed

theorem learned_fusion_softmax_witness:
  "\<not> threshold cfg_learned_sync
   \<and> loss_fn cfg_learned_sync bias_linear 1 2 [zero_sample]
     = Inr \<lparr>rd_loss = 1 + 2 + - ln (3 / 4) + ln 2, rd_mm_loss = - ln (3 / 4),
            rd_scores = [3 / 4], rd_preds = [1]\<rparr>
   \<and> (0::nat) < length [zero_sample]
   \<and> softmax (Linear bias_linear (all_scores ([zero_sample] ! 0))) = (1 / 4, 3 / 4)
   \<and> argmax (softmax (Linear bias_linear (all_scores ([zero_sample] ! 0)))) = 1"
proof -
  let ?r = "\<lparr>rd_loss = 1 + 2 + - ln (3 / 4) + ln 2, rd_mm_loss = - ln (3 / 4),
            rd_scores = [3 / 4], rd_preds = [1]\<rparr>"
  have lin: "Linear bias_linear (all_scores zero_sample) = (0, ln 3)"
    by (simp add: Linear_def bias_linear_def all_scores_def zero_sample_def)
  have ce: "CrossEntropyLoss [(0, ln 3)] [m_label zero_sample] = Inr (- ln (3 / 4))"
    by (simp add: CrossEntropyLoss_def tensor_mean_def softmax_0_ln3 class_prob_def zero_sample_def)
  have av: "CrossEntropyLoss [av_logits zero_sample] [s_label zero_sample] = Inr (ln 2)"
    by (simp add: zero_sample_def ce_zero)
  have t: "\<not> threshold cfg_learned_sync" and sy: "sync cfg_learned_sync"
    by (simp_all add: cfg_learned_sync_def)
  have l: "loss_fn cfg_learned_sync bias_linear 1 2 [zero_sample] = Inr ?r"
    using t sy by (simp add: loss_fn_def fusion_def lin ce av softmax_0_ln3 argmax_def)
  from learned_fusion_softmax [OF t l, of 0] t l show ?thesis
    by (simp add: lin softmax_0_ln3 argmax_def)
qed

text \<open>
  C7. In threshold mode, for every non-empty batch on which the step returns, the
  fusion loss is \<^verbatim>\<open>BCEWithLogitsLoss\<close> of the per-sample average of the remapped
  visual score, the remapped audio score and the raw multimodal logit, against the
  multimodal labels. The average is handed over as a logit: the sigmoid is applied
  inside the loss, not before it. The loss is computed before any thresholding: it
  does not depend on the three thresholds.
\<close>

theorem threshold_training_loss:
  assumes "threshold cfg" and "loss_fn cfg W vl al batch = Inr r" and "batch \<noteq> []"
  shows "rd_mm_loss r =
      BCEWithLogitsLoss
        (map (\<lambda>s. ((v_score s + 1) / 2 + (a_score s + 1) / 2 + snd (av_logits s)) / 3) batch)
        (map (\<lambda>s. real (m_label s)) batch)
    \<and> rd_mm_loss r =
      BCELoss
        (map (\<lambda>s. sigmoid (((v_score s + 1) / 2 + (a_score s + 1) / 2 + snd (av_logits s)) / 3)) batch)
        (map (\<lambda>s. real (m_label s)) batch)
    \<and> map_sum id rd_mm_loss
        (loss_fn (cfg\<lparr>audio_threshold := ta, video_threshold := tv, final_threshold := tf\<rparr>)
           W vl al batch) = Inr (rd_mm_loss r)"
proof -
  let ?cfg' = "cfg\<lparr>audio_threshold := ta, video_threshold := tv, final_threshold := tf\<rparr>"
  from loss_fn_InrD [OF assms(2)] fusion_threshold [OF assms(1)]
  have m: "rd_mm_loss r
      = BCEWithLogitsLoss (map train_final_value batch) (map (\<lambda>s. real (m_label s)) batch)"
    by auto
  have 1: "rd_mm_loss r =
      BCEWithLogitsLoss
        (map (\<lambda>s. ((v_score s + 1) / 2 + (a_score s + 1) / 2 + snd (av_logits s)) / 3) batch)
        (map (\<lambda>s. real (m_label s)) batch)"
    using m by (simp add: train_final_value_eq)
  have 2: "rd_mm_loss r =
      BCELoss
        (map (\<lambda>s. sigmoid (((v_score s + 1) / 2 + (a_score s + 1) / 2 + snd (av_logits s)) / 3)) batch)
        (map (\<lambda>s. real (m_label s)) batch)"
    using 1 by (simp add: bce_with_logits_is_bce_of_sigmoid o_def)
  have t': "threshold ?cfg'" and s': "sync ?cfg' = sync cfg"
    using assms(1) by simp_all
  have 3: "map_sum id rd_mm_loss (loss_fn ?cfg' W vl al batch) = Inr (rd_mm_loss r)"
    using assms(2) m
    by (auto simp: loss_fn_def fusion_threshold [OF t'] fusion_threshold [OF assms(1)] s'
        bind_err_Inr_iff split: if_splits)
  from 1 2 3 show ?thesis
    by blast
qed

theorem threshold_training_loss_witness:
  "threshold cfg_half
   \<and> loss_fn cfg_half zero_linear 0 0 [low_sample]
      = Inr \<lparr>rd_loss = 0 + 0 + BCEWithLogitsLoss [3 / 5] [1],
             rd_mm_loss = BCEWithLogitsLoss [3 / 5] [1],
             rd_scores = [1 / 5], rd_preds = [0]\<rparr>
   \<and> [low_sample] \<noteq> []
   \<and> BCEWithLogitsLoss [3 / 5] [1] = BCELoss [sigmoid (3 / 5)] [1]
   \<and> map_sum id rd_mm_loss
        (loss_fn (cfg_half\<lparr>audio_threshold := 0, video_threshold := 0, final_threshold := 0\<rparr>)
           zero_linear 0 0 [low_sample]) = Inr (BCEWithLogitsLoss [3 / 5] [1])"
proof -
  have t: "threshold cfg_half"
    by (simp add: cfg_half_def)
  have ne: "[low_sample] \<noteq> []"
    by simp
  note l = loss_fn_low_sample [of 0 0]
  from threshold_training_loss [OF t l ne, of 0 0 0] t l show ?thesis
    by (simp add: low_sample_def)
qed

subsection \<open>The epoch-end hooks\<close>

lemma foldl_add_sum_list: "foldl (+) a xs = a + sum_list (xs :: real list)"
  by (induction xs arbitrary: a) simp_all

lemma py_sum_sum_list: "py_sum xs = sum_list xs"
  by (simp add: py_sum_def foldl_add_sum_list)

lemma Average_Inr_iff:
  "Average xs = Inr m \<longleftrightarrow> xs \<noteq> [] \<and> m = sum_list xs / real (length xs)"
  by (auto simp: Average_def py_sum_sum_list)

lemma bool_index_Inr_iff:
  "bool_index a msk = Inr r \<longleftrightarrow> length msk = length a \<and> r = map fst (filter snd (zip a msk))"
  by (auto simp: bool_index_def)

text \<open>What a normal return of the hooks tells about their steps.\<close>

lemma epoch_gather_InrD:
  assumes "epoch_gather ext outs = Inr (l, ps, ts, e)"
  shows "outs \<noteq> [] \<and> l = sum_list (map loss outs) / real (length outs)
    \<and> ps = concat (map preds outs) \<and> ts = concat (map targets outs)
    \<and> ps \<noteq> [] \<and> ts \<noteq> []
    \<and> (\<exists>f g. bool_index (concat (map scores outs)) (map (\<lambda>t. t = 1) ts) = Inr f
          \<and> bool_index (concat (map scores outs)) (map (\<lambda>t. t = 0) ts) = Inr g
          \<and> compute_eer ext f g = Inr e)"
  using assms
  by (auto simp: epoch_gather_def bind_err_Inr_iff Average_Inr_iff torch_stack_def np_stack_def
      split: if_splits)

lemma validation_epoch_end_InrD:
  assumes "validation_epoch_end ext st outs = Inr st'"
  shows "\<exists>l ps ts e a au rf rr rp ff fr fp.
     epoch_gather ext outs = Inr (l, ps, ts, e)
     \<and> acc ext ps ts = Inr a \<and> auroc ext ps ts = Inr au
     \<and> f1score ext ps ts = Inr rf \<and> recall ext ps ts = Inr rr \<and> precisions ext ps ts = Inr rp
     \<and> f1score ext (Opposite ps) (Opposite ts) = Inr ff
     \<and> recall ext (Opposite ps) (Opposite ts) = Inr fr
     \<and> precisions ext (Opposite ps) (Opposite ts) = Inr fp
     \<and> st' = (self_log ''val_eer'' e st)
              \<lparr>best_acc := a, best_auroc := au,
               best_real_f1score := rf, best_real_recall := rr,
               best_real_precision := rp,
               best_fake_f1score := ff, best_fake_recall := fr,
               best_fake_precision := fp,
               best_loss := l\<rparr>"
  using assms
  unfolding validation_epoch_end_def bind_err_Inr_iff split_paired_Ex prod.case
  by blast

lemma test_epoch_end_InrD:
  assumes "test_epoch_end ext st outs = Inr (res, st')"
  shows "\<exists>l ps ts e. epoch_gather ext outs = Inr (l, ps, ts, e) \<and> test_loss res = l
     \<and> take 1 (drop (length (logged st)) (logged st')) = [(''test_eer'', e)]"
  using assms
  unfolding test_epoch_end_def bind_err_Inr_iff split_paired_Ex prod.case
  by (auto simp: self_log_def)

text \<open>The validation hook returns whenever its collaborators do.\<close>

lemma validation_epoch_end_returns:
  assumes "epoch_gather ext outs = Inr (l, ps, ts, e)"
    and "acc ext ps ts = Inr a" and "auroc ext ps ts = Inr au"
    and "f1score ext ps ts = Inr rf" and "recall ext ps ts = Inr rr"
    and "precisions ext ps ts = Inr rp"
    and "f1score ext (Opposite ps) (Opposite ts) = Inr ff"
    and "recall ext (Opposite ps) (Opposite ts) = Inr fr"
    and "precisions ext (Opposite ps) (Opposite ts) = Inr fp"
  shows "validation_epoch_end ext st outs =
     Inr \<lparr>best_loss = l, best_acc = a, best_auroc = au,
          best_real_f1score = rf, best_real_recall = rr, best_real_precision = rp,
          best_fake_f1score = ff, best_fake_recall = fr, best_fake_precision = fp,
          logged = logged st @ [(''val_eer'', e)]\<rparr>"
  using assms by (simp add: validation_epoch_end_def self_log_def)

lemma epoch_end_gather_Inl:
  assumes "epoch_gather ext outs = Inl e"
  shows "validation_epoch_end ext st outs = Inl e" and "test_epoch_end ext st outs = Inl e"
  using assms by (simp_all add: validation_epoch_end_def test_epoch_end_def)

lemma equal_sizes_sums:
  assumes "list_all (\<lambda>out. length (preds out) = n) outs"
  shows "sum_list (map (\<lambda>out. real (length (preds out)) * loss out) outs)
           = real n * sum_list (map loss outs)
     \<and> sum_list (map (\<lambda>out. length (preds out)) outs) = n * length outs"
  using assms by (induction outs) (simp_all add: algebra_simps)

text \<open>The hooks on the concrete epochs.\<close>

lemma gather_mixed:
  "epoch_gather stub_ext mixed_epoch = Inr (1 / 2, [1, 0, 1, 0], [1, 0, 0, 0], 0)"
  by (simp add: epoch_gather_def stub_ext_def mixed_epoch_def Average_def py_sum_def
      torch_stack_def np_stack_def bool_index_def spec_compute_eer_def stub_sweep_def)

lemma validation_mixed:
  "validation_epoch_end stub_ext init_state mixed_epoch =
     Inr \<lparr>best_loss = 1 / 2, best_acc = 3 / 4, best_auroc = 1,
          best_real_f1score = 2, best_real_recall = 1, best_real_precision = 3,
          best_fake_f1score = 2, best_fake_recall = 3, best_fake_precision = 5,
          logged = [(''val_eer'', 0)]\<rparr>"
  by (simp add: validation_epoch_end_def gather_mixed)
    (simp add: stub_ext_def init_state_def self_log_def Opposite_def)

lemma gather_even:
  "epoch_gather stub_ext even_epoch = Inr (1 / 2, [1, 0, 0, 1], [1, 0, 0, 0], 0)"
  by (simp add: epoch_gather_def stub_ext_def even_epoch_def Average_def py_sum_def
      torch_stack_def np_stack_def bool_index_def spec_compute_eer_def stub_sweep_def)

lemma validation_even:
  "validation_epoch_end stub_ext init_state even_epoch =
     Inr \<lparr>best_loss = 1 / 2, best_acc = 3 / 4, best_auroc = 1,
          best_real_f1score = 2, best_real_recall = 1, best_real_precision = 3,
          best_fake_f1score = 2, best_fake_recall = 3, best_fake_precision = 5,
          logged = [(''val_eer'', 0)]\<rparr>"
  by (simp add: validation_epoch_end_def gather_even)
    (simp add: stub_ext_def init_state_def self_log_def Opposite_def)

lemma test_even:
  "test_epoch_end stub_ext init_state even_epoch =
     Inr (\<lparr>test_loss = 1 / 2, test_acc = 3 / 4, test_auroc = 1,
           test_real_f1score = 2, test_real_recall = 1, test_real_precision = 3,
           test_fake_f1score = 2, test_fake_recall = 3, test_fake_precision = 5\<rparr>,
          init_state\<lparr>logged :=
            [(''test_eer'', 0), (''test_acc'', 3 / 4), (''test_auroc'', 1),
             (''test_real_f1score'', 2), (''test_real_recall'', 1), (''test_real_precision'', 3),
             (''test_fake_f1score'', 2), (''test_fake_recall'', 3), (''test_fake_precision'', 5)]\<rparr>)"
  by (simp add: test_epoch_end_def gather_even)
    (simp add: stub_ext_def init_state_def self_log_def Opposite_def)

lemma gather_genuine: "epoch_gather stub_ext genuine_epoch = Inl UndefinedEER"
  by (simp add: epoch_gather_def stub_ext_def genuine_epoch_def Average_def py_sum_def
      torch_stack_def np_stack_def bool_index_def spec_compute_eer_def)

text \<open>
  C8, as the code has it. For every epoch with at least one batch, the epoch loss that
  the hooks report is the unweighted arithmetic mean of the scalar losses of the
  batches, whatever the sizes of the batches; it is the size-weighted mean when all
  batches have the same positive size.
\<close>

theorem epoch_loss_unweighted_mean:
  assumes "outs \<noteq> []"
  shows "Average (map loss outs) = Inr (sum_list (map loss outs) / real (length outs))
    \<and> (validation_epoch_end ext st outs = Inr st'
         \<longrightarrow> best_loss st' = sum_list (map loss outs) / real (length outs))
    \<and> (test_epoch_end ext st outs = Inr (res, st'')
         \<longrightarrow> test_loss res = sum_list (map loss outs) / real (length outs))
    \<and> (0 < n \<and> list_all (\<lambda>out. length (preds out) = n) outs
         \<longrightarrow> size_weighted_mean outs = sum_list (map loss outs) / real (length outs))"
proof -
  let ?m = "sum_list (map loss outs) / real (length outs)"
  have 1: "Average (map loss outs) = Inr ?m"
    using assms by (simp add: Average_Inr_iff)
  have 2: "best_loss st' = ?m" if "validation_epoch_end ext st outs = Inr st'"
  proof -
    from validation_epoch_end_InrD [OF that] obtain l ps ts e where
      g: "epoch_gather ext outs = Inr (l, ps, ts, e)" and b: "best_loss st' = l"
      by (auto simp: self_log_def)
    from epoch_gather_InrD [OF g] b show ?thesis
      by simp
  qed
  have 3: "test_loss res = ?m" if "test_epoch_end ext st outs = Inr (res, st'')"
  proof -
    from test_epoch_end_InrD [OF that] obtain l ps ts e where
      g: "epoch_gather ext outs = Inr (l, ps, ts, e)" and b: "test_loss res = l"
      by blast
    from epoch_gather_InrD [OF g] b show ?thesis
      by simp
  qed
  have 4: "size_weighted_mean outs = ?m"
    if "0 < n \<and> list_all (\<lambda>out. length (preds out) = n) outs"
    using that equal_sizes_sums [of n outs] by (simp add: size_weighted_mean_def)
  from 1 2 3 4 show ?thesis
    by blast
qed

theorem epoch_loss_unweighted_mean_witness:
  "even_epoch \<noteq> []
   \<and> Average (map loss even_epoch) = Inr (1 / 2)
   \<and> map_sum id best_loss (validation_epoch_end stub_ext init_state even_epoch) = Inr (1 / 2)
   \<and> map_sum id (test_loss \<circ> fst) (test_epoch_end stub_ext init_state even_epoch) = Inr (1 / 2)
   \<and> (0::nat) < 2 \<and> list_all (\<lambda>out. length (preds out) = 2) even_epoch
   \<and> size_weighted_mean even_epoch = 1 / 2"
proof -
  let ?st' = "\<lparr>best_loss = 1 / 2, best_acc = 3 / 4, best_auroc = 1,
          best_real_f1score = 2, best_real_recall = 1, best_real_precision = 3,
          best_fake_f1score = 2, best_fake_recall = 3, best_fake_precision = 5,
          logged = [(''val_eer'', 0)]\<rparr>"
  let ?res = "\<lparr>test_loss = 1 / 2, test_acc = 3 / 4, test_auroc = 1,
           test_real_f1score = 2, test_real_recall = 1, test_real_precision = 3,
           test_fake_f1score = 2, test_fake_recall = 3, test_fake_precision = 5\<rparr>"
  let ?st'' = "init_state\<lparr>logged :=
            [(''test_eer'', 0), (''test_acc'', 3 / 4), (''test_auroc'', 1),
             (''test_real_f1score'', 2), (''test_real_recall'', 1), (''test_real_precision'', 3),
             (''test_fake_f1score'', 2), (''test_fake_recall'', 3), (''test_fake_precision'', 5)]\<rparr>"
  have ne: "even_epoch \<noteq> []" and sz: "list_all (\<lambda>out. length (preds out) = 2) even_epoch"
    and m: "sum_list (map loss even_epoch) / real (length even_epoch) = 1 / 2"
    by (simp_all add: even_epoch_def)
  have v: "validation_epoch_end stub_ext init_state even_epoch = Inr ?st'"
    by (rule validation_even)
  have t: "test_epoch_end stub_ext init_state even_epoch = Inr (?res, ?st'')"
    by (rule test_even)
  from epoch_loss_unweighted_mean [OF ne, of stub_ext init_state ?st' ?res ?st'' 2] ne sz m v t
  show ?thesis
    by simp
qed

text \<open>
  No size weighting takes place when the batch sizes vary: on an epoch of a batch of
  one sample with loss 1 and a batch of three samples with loss 0, the validation hook
  reports \<open>1/2\<close>, and the size-weighted mean is \<open>1/4\<close>.
\<close>

theorem epoch_loss_weighting_counterexample:
  "map_sum id best_loss (validation_epoch_end stub_ext init_state mixed_epoch) = Inr (1 / 2)
   \<and> map (\<lambda>out. length (preds out)) mixed_epoch = [1, 3]
   \<and> size_weighted_mean mixed_epoch = 1 / 4
   \<and> map_sum id best_loss (validation_epoch_end stub_ext init_state mixed_epoch)
       \<noteq> Inr (size_weighted_mean mixed_epoch)"
  by (simp add: validation_mixed) (simp add: mixed_epoch_def size_weighted_mean_def)

text \<open>
  C9. Whenever \<^verbatim>\<open>validation_epoch_end\<close> returns, every \<open>best_*\<close> field holds the value
  that the current epoch gives: the average loss, and the metrics of the epoch's
  predictions and targets, in both polarities. No field is compared with its previous
  value: started from any other state, the hook returns with the same \<open>best_*\<close> fields.
\<close>

theorem validation_overwrites_best:
  assumes "validation_epoch_end ext st outs = Inr st'"
  shows "Average (map loss outs) = Inr (best_loss st')
    \<and> acc ext (concat (map preds outs)) (concat (map targets outs)) = Inr (best_acc st')
    \<and> auroc ext (concat (map preds outs)) (concat (map targets outs)) = Inr (best_auroc st')
    \<and> f1score ext (concat (map preds outs)) (concat (map targets outs))
        = Inr (best_real_f1score st')
    \<and> recall ext (concat (map preds outs)) (concat (map targets outs))
        = Inr (best_real_recall st')
    \<and> precisions ext (concat (map preds outs)) (concat (map targets outs))
        = Inr (best_real_precision st')
    \<and> f1score ext (Opposite (concat (map preds outs))) (Opposite (concat (map targets outs)))
        = Inr (best_fake_f1score st')
    \<and> recall ext (Opposite (concat (map preds outs))) (Opposite (concat (map targets outs)))
        = Inr (best_fake_recall st')
    \<and> precisions ext (Opposite (concat (map preds outs))) (Opposite (concat (map targets outs)))
        = Inr (best_fake_precision st')
    \<and> (\<exists>e. validation_epoch_end ext st0 outs = Inr (st'\<lparr>logged := logged st0 @ [(''val_eer'', e)]\<rparr>))"
proof -
  from validation_epoch_end_InrD [OF assms] obtain l ps ts e a au rf rr rp ff fr fp where
    g: "epoch_gather ext outs = Inr (l, ps, ts, e)" and
    m: "acc ext ps ts = Inr a" "auroc ext ps ts = Inr au"
       "f1score ext ps ts = Inr rf" "recall ext ps ts = Inr rr" "precisions ext ps ts = Inr rp"
       "f1score ext (Opposite ps) (Opposite ts) = Inr ff"
       "recall ext (Opposite ps) (Opposite ts) = Inr fr"
       "precisions ext (Opposite ps) (Opposite ts) = Inr fp" and
    st': "st' = (self_log ''val_eer'' e st)
              \<lparr>best_acc := a, best_auroc := au,
               best_real_f1score := rf, best_real_recall := rr,
               best_real_precision := rp,
               best_fake_f1score := ff, best_fake_recall := fr,
               best_fake_precision := fp,
               best_loss := l\<rparr>"
    by blast
  from epoch_gather_InrD [OF g] have
    ne: "outs \<noteq> []" and l: "l = sum_list (map loss outs) / real (length outs)" and
    ps: "ps = concat (map preds outs)" and ts: "ts = concat (map targets outs)"
    by simp_all
  have av: "Average (map loss outs) = Inr (best_loss st')"
    using ne l by (simp add: Average_Inr_iff st')
  have again: "validation_epoch_end ext st0 outs
      = Inr (st'\<lparr>logged := logged st0 @ [(''val_eer'', e)]\<rparr>)"
    by (simp add: validation_epoch_end_returns [OF g m] st' self_log_def)
  from av m again show ?thesis
    unfolding ps ts by (simp add: st') blast
qed

theorem validation_overwrites_best_witness:
  "validation_epoch_end stub_ext init_state even_epoch =
     Inr \<lparr>best_loss = 1 / 2, best_acc = 3 / 4, best_auroc = 1,
          best_real_f1score = 2, best_real_recall = 1, best_real_precision = 3,
          best_fake_f1score = 2, best_fake_recall = 3, best_fake_precision = 5,
          logged = [(''val_eer'', 0)]\<rparr>
   \<and> Average (map loss even_epoch) = Inr (1 / 2)
   \<and> acc stub_ext (concat (map preds even_epoch)) (concat (map targets even_epoch)) = Inr (3 / 4)
   \<and> map_sum id best_loss
        (validation_epoch_end stub_ext (init_state\<lparr>best_loss := 0, best_acc := 1\<rparr>) even_epoch)
      = Inr (1 / 2)
   \<and> map_sum id best_acc
        (validation_epoch_end stub_ext (init_state\<lparr>best_loss := 0, best_acc := 1\<rparr>) even_epoch)
      = Inr (3 / 4)"
proof -
  let ?st' = "\<lparr>best_loss = 1 / 2, best_acc = 3 / 4, best_auroc = 1,
          best_real_f1score = 2, best_real_recall = 1, best_real_precision = 3,
          best_fake_f1score = 2, best_fake_recall = 3, best_fake_precision = 5,
          logged = [(''val_eer'', 0)]\<rparr>"
  have v: "validation_epoch_end stub_ext init_state even_epoch = Inr ?st'"
    by (rule validation_even)
  from validation_overwrites_best [OF v, of "init_state\<lparr>best_loss := 0, best_acc := 1\<rparr>"] v
  show ?thesis
    by auto
qed

lemma epoch_gather_empty_distribution:
  assumes "compute_eer ext = spec_compute_eer sweep"
    and "bool_index (concat (map scores outs)) (map (\<lambda>t. t = 1) (concat (map targets outs))) = Inr []
       \<or> bool_index (concat (map scores outs)) (map (\<lambda>t. t = 0) (concat (map targets outs))) = Inr []"
  shows "\<exists>e. epoch_gather ext outs = Inl e
     \<and> (concat (map preds outs) \<noteq> [] \<and> concat (map targets outs) \<noteq> [] \<longrightarrow> e = UndefinedEER)"
proof (cases "outs = [] \<or> concat (map preds outs) = [] \<or> concat (map targets outs) = []")
  case True
  then show ?thesis
    by (auto simp: epoch_gather_def Average_def torch_stack_def)
next
  case False
  let ?S = "concat (map scores outs)" and ?T = "concat (map targets outs)"
  from assms(2) have len: "length ?T = length ?S"
    by (auto simp: bool_index_Inr_iff)
  moreover from False have "?T \<noteq> []"
    by blast
  ultimately have S: "?S \<noteq> []"
    by (metis length_0_conv)
  from len obtain f g where
    f: "bool_index ?S (map (\<lambda>t. t = 1) ?T) = Inr f" and
    g: "bool_index ?S (map (\<lambda>t. t = 0) ?T) = Inr g"
    by (auto simp: bool_index_Inr_iff)
  with assms(2) have "f = [] \<or> g = []"
    by auto
  then have "compute_eer ext f g = Inl UndefinedEER"
    by (auto simp: assms(1) spec_compute_eer_def)
  with False S f g show ?thesis
    by (simp add: epoch_gather_def Average_def torch_stack_def np_stack_def)
qed

text \<open>
  C2. Both epoch-end hooks split the scores of the epoch into the scores whose target
  is 1 and the scores whose target is 0 and hand the two lists to \<^verbatim>\<open>compute_eer\<close>.
  With \<^verbatim>\<open>compute_eer\<close> as the specification describes it, an empty list on either
  side makes both hooks end in an error, which is the undefined-EER error as soon as
  the epoch has a prediction and a target; no value is logged or returned in its
  place. When a hook returns, both lists were non-empty and the logged rate is the
  result of the sweep on them.
\<close>

theorem undefined_eer_is_error:
  assumes "compute_eer ext = spec_compute_eer sweep"
  shows "(bool_index (concat (map scores outs)) (map (\<lambda>t. t = 1) (concat (map targets outs))) = Inr []
          \<or> bool_index (concat (map scores outs)) (map (\<lambda>t. t = 0) (concat (map targets outs))) = Inr []
        \<longrightarrow> (\<exists>e. validation_epoch_end ext st outs = Inl e \<and> test_epoch_end ext st outs = Inl e
               \<and> (concat (map preds outs) \<noteq> [] \<and> concat (map targets outs) \<noteq> []
                    \<longrightarrow> e = UndefinedEER)))
    \<and> (validation_epoch_end ext st outs = Inr st'
        \<longrightarrow> (\<exists>f g. bool_index (concat (map scores outs))
                      (map (\<lambda>t. t = 1) (concat (map targets outs))) = Inr f
                  \<and> bool_index (concat (map scores outs))
                      (map (\<lambda>t. t = 0) (concat (map targets outs))) = Inr g
                  \<and> f \<noteq> [] \<and> g \<noteq> []
                  \<and> logged st' = logged st @ [(''val_eer'', sweep f g)]))
    \<and> (test_epoch_end ext st outs = Inr (res, st'')
        \<longrightarrow> (\<exists>f g. bool_index (concat (map scores outs))
                      (map (\<lambda>t. t = 1) (concat (map targets outs))) = Inr f
                  \<and> bool_index (concat (map scores outs))
                      (map (\<lambda>t. t = 0) (concat (map targets outs))) = Inr g
                  \<and> f \<noteq> [] \<and> g \<noteq> []
                  \<and> take 1 (drop (length (logged st)) (logged st'')) = [(''test_eer'', sweep f g)]))"
proof -
  let ?S = "concat (map scores outs)" and ?T = "concat (map targets outs)"
  have split: "\<exists>f g. bool_index ?S (map (\<lambda>t. t = 1) ?T) = Inr f
                  \<and> bool_index ?S (map (\<lambda>t. t = 0) ?T) = Inr g
                  \<and> f \<noteq> [] \<and> g \<noteq> [] \<and> e = sweep f g"
    if "epoch_gather ext outs = Inr (l, ps, ts, e)" for l ps ts e
    using epoch_gather_InrD [OF that]
    by (auto simp: assms spec_compute_eer_def split: if_splits)
  have 1: "\<exists>e. validation_epoch_end ext st outs = Inl e \<and> test_epoch_end ext st outs = Inl e
               \<and> (concat (map preds outs) \<noteq> [] \<and> ?T \<noteq> [] \<longrightarrow> e = UndefinedEER)"
    if "bool_index ?S (map (\<lambda>t. t = 1) ?T) = Inr [] \<or> bool_index ?S (map (\<lambda>t. t = 0) ?T) = Inr []"
    using epoch_gather_empty_distribution [OF assms that] epoch_end_gather_Inl [of ext outs]
    by metis
  have 2: "\<exists>f g. bool_index ?S (map (\<lambda>t. t = 1) ?T) = Inr f
                  \<and> bool_index ?S (map (\<lambda>t. t = 0) ?T) = Inr g
                  \<and> f \<noteq> [] \<and> g \<noteq> []
                  \<and> logged st' = logged st @ [(''val_eer'', sweep f g)]"
    if "validation_epoch_end ext st outs = Inr st'"
  proof -
    from validation_epoch_end_InrD [OF that] obtain l ps ts e where
      g: "epoch_gather ext outs = Inr (l, ps, ts, e)" and
      lg: "logged st' = logged st @ [(''val_eer'', e)]"
      by (auto simp: self_log_def)
    from split [OF g] lg show ?thesis
      by auto
  qed
  have 3: "\<exists>f g. bool_index ?S (map (\<lambda>t. t = 1) ?T) = Inr f
                  \<and> bool_index ?S (map (\<lambda>t. t = 0) ?T) = Inr g
                  \<and> f \<noteq> [] \<and> g \<noteq> []
                  \<and> take 1 (drop (length (logged st)) (logged st'')) = [(''test_eer'', sweep f g)]"
    if "test_epoch_end ext st outs = Inr (res, st'')"
  proof -
    from test_epoch_end_InrD [OF that] obtain l ps ts e where
      g: "epoch_gather ext outs = Inr (l, ps, ts, e)" and
      lg: "take 1 (drop (length (logged st)) (logged st'')) = [(''test_eer'', e)]"
      by blast
    from split [OF g] lg show ?thesis
      by auto
  qed
  from 1 2 3 show ?thesis
    by blast
qed

theorem undefined_eer_is_error_witness:
  "compute_eer stub_ext = spec_compute_eer stub_sweep
   \<and> bool_index (concat (map scores genuine_epoch))
        (map (\<lambda>t. t = 1) (concat (map targets genuine_epoch))) = Inr []
   \<and> concat (map preds genuine_epoch) \<noteq> [] \<and> concat (map targets genuine_epoch) \<noteq> []
   \<and> validation_epoch_end stub_ext init_state genuine_epoch = Inl UndefinedEER
   \<and> test_epoch_end stub_ext init_state genuine_epoch = Inl UndefinedEER
   \<and> validation_epoch_end stub_ext init_state even_epoch =
       Inr \<lparr>best_loss = 1 / 2, best_acc = 3 / 4, best_auroc = 1,
            best_real_f1score = 2, best_real_recall = 1, best_real_precision = 3,
            best_fake_f1score = 2, best_fake_recall = 3, best_fake_precision = 5,
            logged = [(''val_eer'', 0)]\<rparr>
   \<and> map_sum id (test_loss \<circ> fst) (test_epoch_end stub_ext init_state even_epoch) = Inr (1 / 2)
   \<and> bool_index (concat (map scores even_epoch))
        (map (\<lambda>t. t = 1) (concat (map targets even_epoch))) = Inr [9 / 10]
   \<and> bool_index (concat (map scores even_epoch))
        (map (\<lambda>t. t = 0) (concat (map targets even_epoch))) = Inr [1 / 5, 1 / 10, 7 / 10]
   \<and> stub_sweep [9 / 10] [1 / 5, 1 / 10, 7 / 10] = 0"
proof -
  let ?st' = "\<lparr>best_loss = 1 / 2, best_acc = 3 / 4, best_auroc = 1,
          best_real_f1score = 2, best_real_recall = 1, best_real_precision = 3,
          best_fake_f1score = 2, best_fake_recall = 3, best_fake_precision = 5,
          logged = [(''val_eer'', 0)]\<rparr>"
  let ?res = "\<lparr>test_loss = 1 / 2, test_acc = 3 / 4, test_auroc = 1,
           test_real_f1score = 2, test_real_recall = 1, test_real_precision = 3,
           test_fake_f1score = 2, test_fake_recall = 3, test_fake_precision = 5\<rparr>"
  let ?st'' = "init_state\<lparr>logged :=
            [(''test_eer'', 0), (''test_acc'', 3 / 4), (''test_auroc'', 1),
             (''test_real_f1score'', 2), (''test_real_recall'', 1), (''test_real_precision'', 3),
             (''test_fake_f1score'', 2), (''test_fake_recall'', 3), (''test_fake_precision'', 5)]\<rparr>"
  have c: "compute_eer stub_ext = spec_compute_eer stub_sweep"
    by (simp add: stub_ext_def)
  have e: "bool_index (concat (map scores genuine_epoch))
        (map (\<lambda>t. t = 1) (concat (map targets genuine_epoch))) = Inr []"
    and ne: "concat (map preds genuine_epoch) \<noteq> []" "concat (map targets genuine_epoch) \<noteq> []"
    by (simp_all add: genuine_epoch_def bool_index_def)
  have b: "bool_index (concat (map scores even_epoch))
        (map (\<lambda>t. t = 1) (concat (map targets even_epoch))) = Inr [9 / 10]"
    "bool_index (concat (map scores even_epoch))
        (map (\<lambda>t. t = 0) (concat (map targets even_epoch))) = Inr [1 / 5, 1 / 10, 7 / 10]"
    "stub_sweep [9 / 10] [1 / 5, 1 / 10, 7 / 10] = 0"
    by (simp_all add: even_epoch_def bool_index_def stub_sweep_def)
  have v: "validation_epoch_end stub_ext init_state even_epoch = Inr ?st'"
    by (rule validation_even)
  have t: "test_epoch_end stub_ext init_state even_epoch = Inr (?res, ?st'')"
    by (rule test_even)
  from undefined_eer_is_error [OF c, of genuine_epoch init_state ?st' ?res ?st'']
    undefined_eer_is_error [OF c, of even_epoch init_state ?st' ?res ?st'']
    c e ne b v t
  show ?thesis
    by auto
qed

end
